theory Spec2Isabelle
  imports Main "HOL-Library.Word" "HOL-Library.Sublist"
begin

section \<open>Strings and JSON values\<close>

text \<open>
  A Python \<^verbatim>\<open>str\<close> is a sequence of Unicode code points; it is modelled as a list of
  natural numbers. \<open>lit\<close> turns an ASCII literal of the source into such a list.
\<close>

type_synonym str = "nat list"

abbreviation lit :: "string \<Rightarrow> str" where
  "lit s \<equiv> map of_char s"

text \<open>
  The code points that \<^verbatim>\<open>str.strip()\<close> removes when called without an argument
  (the interpreter's \<^verbatim>\<open>str.isspace\<close> set).
\<close>

definition isspace :: "nat \<Rightarrow> bool" where
  "isspace c \<longleftrightarrow>
     (9 \<le> c \<and> c \<le> 13) \<or> (28 \<le> c \<and> c \<le> 32) \<or> c = 133 \<or> c = 160 \<or> c = 5760 \<or>
     (8192 \<le> c \<and> c \<le> 8202) \<or> c = 8232 \<or> c = 8233 \<or> c = 8239 \<or> c = 8287 \<or> c = 12288"

definition strip :: "str \<Rightarrow> str" where
  "strip s = rev (dropWhile isspace (rev (dropWhile isspace s)))"

text \<open>
  The values \<^verbatim>\<open>json.loads\<close> produces. A \<^verbatim>\<open>dict\<close> is an association list read
  with \<open>map_of\<close>; a \<^verbatim>\<open>float\<close> is carried as its 64 bits.
\<close>

datatype json =
    JNull
  | JBool bool
  | JInt int
  | JFloat "64 word"
  | JStr str
  | JArr "json list"
  | JObj "(str \<times> json) list"

text \<open>\<^verbatim>\<open>obj[k]\<close> on a dict, \<open>None\<close> where the key is missing or \<open>obj\<close> is no dict.\<close>

fun field :: "json \<Rightarrow> str \<Rightarrow> json option" where
  "field (JObj kvs) k = map_of kvs k"
| "field _ k = None"

section \<open>Exceptions and the interpreter's services\<close>

text \<open>
  The exceptions the handlers of \<^verbatim>\<open>client_thread\<close> tell apart; every other subclass of
  \<^verbatim>\<open>Exception\<close> is \<open>OtherError\<close> with its class name.
\<close>

datatype exn = JSONDecodeError | ConnectionResetError | OtherError str

fun exn_name :: "exn \<Rightarrow> str" where
  "exn_name JSONDecodeError = lit ''JSONDecodeError''"
| "exn_name ConnectionResetError = lit ''ConnectionResetError''"
| "exn_name (OtherError n) = n"

text \<open>
  What the program takes from the interpreter and the host, none of it code of the
  repository: the per-code-point table of \<^verbatim>\<open>str.upper\<close>, the parser
  \<^verbatim>\<open>json.loads\<close>, the clock behind \<^verbatim>\<open>now_iso\<close> and \<^verbatim>\<open>platform.platform()\<close>.
\<close>

record runtime =
  toupper :: "nat \<Rightarrow> str"
  json_loads :: "str \<Rightarrow> exn + json"
  now_iso :: str
  platform_platform :: str

definition upper :: "runtime \<Rightarrow> str \<Rightarrow> str" where
  "upper rt s = concat (map (toupper rt) s)"

section \<open>server.py\<close>

definition SERVER_NAME :: str where
  "SERVER_NAME = lit ''Tinashe-NetServer''"

text \<open>
  \<^verbatim>\<open>make_response\<close>: \<^verbatim>\<open>data or {}\<close> turns both \<^verbatim>\<open>None\<close> and the empty dict into the
  empty dict; \<^verbatim>\<open>error\<close> is passed on as it is.
\<close>

definition make_response ::
  "str \<Rightarrow> str \<Rightarrow> (str \<times> json) list option \<Rightarrow> (str \<times> json) list option \<Rightarrow> json" where
  "make_response request_id status data error =
     JObj [(lit ''request_id'', JStr request_id),
           (lit ''status'', JStr status),
           (lit ''data'', JObj (case data of None \<Rightarrow> [] | Some d \<Rightarrow> d)),
           (lit ''error'', (case error of None \<Rightarrow> JNull | Some e \<Rightarrow> JObj e))]"

definition error_obj :: "string \<Rightarrow> str \<Rightarrow> (str \<times> json) list" where
  "error_obj code message = [(lit ''code'', JStr (lit code)), (lit ''message'', JStr message)]"

text \<open>
  The state of \<^verbatim>\<open>DATA_FILE\<close> when \<^verbatim>\<open>load_local_data\<close> runs: no such file, a file
  that \<^verbatim>\<open>open\<close> or \<^verbatim>\<open>read\<close> refuses with an \<^verbatim>\<open>OSError\<close>, a file that is not JSON,
  a file holding a JSON value, or a file whose reading raises something else (bytes that
  are not UTF-8 raise \<^verbatim>\<open>UnicodeDecodeError\<close>, which neither handler catches).
\<close>

datatype data_file =
    Missing
  | Unreadable
  | Malformed
  | Holds json
  | ReadFails str

fun load_local_data :: "data_file \<Rightarrow> exn + json" where
  "load_local_data Missing = Inr (JObj [])"
| "load_local_data Unreadable = Inr (JObj [])"
| "load_local_data Malformed = Inr (JObj [])"
| "load_local_data (Holds v) = Inr v"
| "load_local_data (ReadFails n) = Inl (OtherError n)"

text \<open>
  One test of \<^verbatim>\<open>validate_request\<close>:
  \<^verbatim>\<open>k not in obj or not isinstance(obj[k], str) or not obj[k].strip()\<close>.
\<close>

definition bad_str_field :: "(str \<times> json) list \<Rightarrow> str \<Rightarrow> bool" where
  "bad_str_field kvs k =
     (case map_of kvs k of Some (JStr s) \<Rightarrow> strip s = [] | _ \<Rightarrow> True)"

definition bad_payload :: "(str \<times> json) list \<Rightarrow> bool" where
  "bad_payload kvs = (case map_of kvs (lit ''payload'') of Some (JObj p) \<Rightarrow> False | _ \<Rightarrow> True)"

fun validate_request :: "json \<Rightarrow> bool \<times> str" where
  "validate_request (JObj kvs) =
     (if bad_str_field kvs (lit ''type'') then (False, lit ''Missing or invalid 'type' field'')
      else if bad_str_field kvs (lit ''request_id'')
        then (False, lit ''Missing or invalid 'request_id' field'')
      else if bad_payload kvs
        then (False, lit ''Missing or invalid 'payload' field (must be an object)'')
      else (True, []))"
| "validate_request _ = (False, lit ''Request must be a JSON object'')"

text \<open>
  The effects of a session on what it shares with the others and on its socket, in the
  order the code performs them.
\<close>

datatype effect =
    Acquire
  | Release
  | Incr
  | Decr
  | ReadCount
  | Sent json
  | Closed

text \<open>
  \<^verbatim>\<open>key in data\<close> and \<^verbatim>\<open>data[key]\<close> for a \<^verbatim>\<open>str\<close> key, on whatever
  \<^verbatim>\<open>load_local_data\<close> returned: a dict is searched by key, a list by element, a string
  for the substring, and every other value raises \<^verbatim>\<open>TypeError\<close>; only a dict can be
  indexed by a string.
\<close>

fun py_contains :: "json \<Rightarrow> str \<Rightarrow> exn + bool" where
  "py_contains (JObj kvs) k = Inr (map_of kvs k \<noteq> None)"
| "py_contains (JArr xs) k = Inr (JStr k \<in> set xs)"
| "py_contains (JStr s) k = Inr (sublist k s)"
| "py_contains _ k = Inl (OtherError (lit ''TypeError''))"

fun py_getitem :: "json \<Rightarrow> str \<Rightarrow> exn + json" where
  "py_getitem (JObj kvs) k =
     (case map_of kvs k of None \<Rightarrow> Inl (OtherError (lit ''KeyError'')) | Some v \<Rightarrow> Inr v)"
| "py_getitem _ k = Inl (OtherError (lit ''TypeError''))"

text \<open>The FILE_QUERY branch of \<^verbatim>\<open>handle_request\<close> (lines 104 to 126).\<close>

definition file_query :: "data_file \<Rightarrow> str \<Rightarrow> (str \<times> json) list \<Rightarrow> exn + json" where
  "file_query df request_id payload =
     (case map_of payload (lit ''key'') of
        Some (JStr k) \<Rightarrow>
          if strip k = [] then
            Inr (make_response request_id (lit ''ERROR'') None
              (Some (error_obj ''BAD_REQUEST'' (lit ''FILE_QUERY requires payload.key (string)''))))
          else
            (case load_local_data df of
               Inl e \<Rightarrow> Inl e
             | Inr data \<Rightarrow>
                 let key = strip k in
                 (case py_contains data key of
                    Inl e \<Rightarrow> Inl e
                  | Inr False \<Rightarrow>
                      Inr (make_response request_id (lit ''ERROR'') None
                        (Some (error_obj ''NOT_FOUND''
                           (lit ''Key '' @ [39] @ key @ [39] @ lit '' not found''))))
                  | Inr True \<Rightarrow>
                      (case py_getitem data key of
                         Inl e \<Rightarrow> Inl e
                       | Inr v \<Rightarrow>
                           Inr (make_response request_id (lit ''OK'')
                             (Some [(lit ''key'', JStr key), (lit ''value'', v)]) None))))
      | _ \<Rightarrow>
          Inr (make_response request_id (lit ''ERROR'') None
            (Some (error_obj ''BAD_REQUEST'' (lit ''FILE_QUERY requires payload.key (string)'')))))"

text \<open>
  \<^verbatim>\<open>handle_request\<close>, called by \<^verbatim>\<open>client_thread\<close> on validated requests only. The
  result is the effects on the shared counter and either the response or the exception
  raised. \<open>count\<close> is the value of \<^verbatim>\<open>active_clients\<close> the SYSTEM_INFO branch reads. On
  a request that is not of the validated shape the Python raises at one of its first
  three lines or at a later payload test; the model has one error value for that.
\<close>

definition handle_request ::
  "runtime \<Rightarrow> data_file \<Rightarrow> int \<Rightarrow> json \<Rightarrow> effect list \<times> (exn + json)" where
  "handle_request rt df count req =
     (case (field req (lit ''type''), field req (lit ''request_id''), field req (lit ''payload'')) of
        (Some (JStr t), Some (JStr request_id), Some (JObj payload)) \<Rightarrow>
          let req_type = upper rt (strip t) in
          if req_type = lit ''ECHO'' then
            (case map_of payload (lit ''message'') of
               Some (JStr m) \<Rightarrow>
                 ([], Inr (make_response request_id (lit ''OK'') (Some [(lit ''echo'', JStr m)]) None))
             | _ \<Rightarrow>
                 ([], Inr (make_response request_id (lit ''ERROR'') None
                    (Some (error_obj ''BAD_REQUEST''
                       (lit ''ECHO requires payload.message (string)''))))))
          else if req_type = lit ''SYSTEM_INFO'' then
            ([Acquire, ReadCount, Release],
             Inr (make_response request_id (lit ''OK'')
               (Some [(lit ''server_name'', JStr SERVER_NAME),
                      (lit ''server_time'', JStr (now_iso rt)),
                      (lit ''active_clients'', JInt count),
                      (lit ''platform'', JStr (platform_platform rt))]) None))
          else if req_type = lit ''FILE_QUERY'' then
            ([], file_query df request_id payload)
          else if req_type = lit ''HELP'' then
            ([], Inr (make_response request_id (lit ''OK'')
               (Some [(lit ''supported_types'',
                       JArr [JStr (lit ''ECHO''), JStr (lit ''SYSTEM_INFO''),
                             JStr (lit ''FILE_QUERY''), JStr (lit ''HELP'')])]) None))
          else
            ([], Inr (make_response request_id (lit ''ERROR'') None
               (Some (error_obj ''UNKNOWN_TYPE'' (lit ''Unknown request type: '' @ req_type)))))
      | _ \<Rightarrow> ([], Inl (OtherError (lit ''TypeError''))))"

text \<open>
  A connection as the session sees it. \<open>read\<close> is the outcome of one
  \<^verbatim>\<open>file_like.readline()\<close>: a line (with its newline; the empty string is the end of the
  stream) or an exception. Once the list of reads is used up the stream is at its end.
  Each \<^verbatim>\<open>conn.sendall\<close> takes the next entry of \<open>faults\<close>: \<open>None\<close>, or no entry
  left, and the bytes are written; \<open>Some e\<close> and it raises \<open>e\<close>. What is written is
  recorded as the response itself, before \<^verbatim>\<open>json.dumps\<close>.
\<close>

datatype read = Line str | ReadRaises exn

fun sendall :: "json \<Rightarrow> exn option list \<Rightarrow> effect list \<times> exn option \<times> exn option list" where
  "sendall r [] = ([Sent r], None, [])"
| "sendall r (None # fs) = ([Sent r], None, fs)"
| "sendall r (Some e # fs) = ([], Some e, fs)"

text \<open>
  One pass through the body of the \<^verbatim>\<open>while\<close> loop for a line that is not the end of
  the stream, up to the response it is about to write: nothing for a blank line
  (\<^verbatim>\<open>continue\<close>), a response, or an exception that leaves the loop.
\<close>

datatype step = Skip | Respond json | Raise exn

definition process_line ::
  "runtime \<Rightarrow> data_file \<Rightarrow> int \<Rightarrow> str \<Rightarrow> effect list \<times> step" where
  "process_line rt df count line0 =
     (let line = strip line0 in
      if line = [] then ([], Skip)
      else
        (case json_loads rt line of
           Inl JSONDecodeError \<Rightarrow>
             ([], Respond (make_response [] (lit ''ERROR'') None
                (Some (error_obj ''INVALID_JSON'' (lit ''Could not parse JSON request'')))))
         | Inl e \<Rightarrow> ([], Raise e)
         | Inr req_obj \<Rightarrow>
             (case validate_request req_obj of
                (False, msg) \<Rightarrow>
                  let request_id =
                        (case req_obj of
                           JObj kvs \<Rightarrow>
                             (case map_of kvs (lit ''request_id'') of
                                None \<Rightarrow> JStr [] | Some v \<Rightarrow> v)
                         | _ \<Rightarrow> JStr [])
                  in ([], Respond (make_response
                        (case request_id of JStr s \<Rightarrow> s | _ \<Rightarrow> [])
                        (lit ''ERROR'') None (Some (error_obj ''BAD_REQUEST'' msg))))
              | (True, msg) \<Rightarrow>
                  (case handle_request rt df count req_obj of
                     (effs, Inl e) \<Rightarrow> (effs, Raise e)
                   | (effs, Inr resp_obj) \<Rightarrow> (effs, Respond resp_obj)))))"

text \<open>
  The \<^verbatim>\<open>while True\<close> loop inside the \<^verbatim>\<open>try\<close>: the effects, the exception that
  left the loop (\<open>None\<close> for the \<^verbatim>\<open>break\<close> at the end of the stream) and the send
  outcomes not yet used. \<^verbatim>\<open>conn.makefile\<close> is taken to succeed (its failure is a
  first read that raises). The session is taken alone: the data file stays as it is and
  the counter value that SYSTEM_INFO reads is the one this session left.
\<close>

fun serve ::
  "runtime \<Rightarrow> data_file \<Rightarrow> int \<Rightarrow> read list \<Rightarrow> exn option list \<Rightarrow>
     effect list \<times> exn option \<times> exn option list" where
  "serve rt df count [] fs = ([], None, fs)"
| "serve rt df count (ReadRaises e # rs) fs = ([], Some e, fs)"
| "serve rt df count (Line l # rs) fs =
     (if l = [] then ([], None, fs)
      else
        (case process_line rt df count l of
           (effs, Skip) \<Rightarrow>
             (case serve rt df count rs fs of (t, x, fs') \<Rightarrow> (effs @ t, x, fs'))
         | (effs, Raise e) \<Rightarrow> (effs, Some e, fs)
         | (effs, Respond r) \<Rightarrow>
             (case sendall r fs of
                (se, Some e, fs') \<Rightarrow> (effs @ se, Some e, fs')
              | (se, None, fs') \<Rightarrow>
                  (case serve rt df count rs fs' of (t, x, fs'') \<Rightarrow> (effs @ se @ t, x, fs'')))))"

text \<open>
  The \<^verbatim>\<open>except\<close> clauses: a \<^verbatim>\<open>ConnectionResetError\<close> is dropped; any other
  exception has a SERVER_ERROR response sent, and a failure of that send is dropped too.
\<close>

definition server_error :: "exn \<Rightarrow> json" where
  "server_error ex =
     make_response [] (lit ''ERROR'') None
       (Some (error_obj ''SERVER_ERROR'' (lit ''Unexpected error: '' @ exn_name ex)))"

fun on_exception :: "exn option \<Rightarrow> exn option list \<Rightarrow> effect list" where
  "on_exception None fs = []"
| "on_exception (Some ConnectionResetError) fs = []"
| "on_exception (Some ex) fs = fst (sendall (server_error ex) fs)"

text \<open>
  \<^verbatim>\<open>client_thread\<close>, from a counter value \<open>n\<close>: the increment under the lock, the loop,
  the handlers, and the \<^verbatim>\<open>finally\<close> block (close, then the decrement under the lock).
\<close>

definition client_thread ::
  "runtime \<Rightarrow> data_file \<Rightarrow> int \<Rightarrow> read list \<Rightarrow> exn option list \<Rightarrow> effect list" where
  "client_thread rt df n rs fs =
     (case serve rt df (n + 1) rs fs of
        (body, ex, fs') \<Rightarrow>
          [Acquire, Incr, Release] @ body @ on_exception ex fs' @ [Closed, Acquire, Decr, Release])"

text \<open>The counter after a sequence of effects.\<close>

fun counter_after :: "effect list \<Rightarrow> int \<Rightarrow> int" where
  "counter_after [] n = n"
| "counter_after (Incr # es) n = counter_after es (n + 1)"
| "counter_after (Decr # es) n = counter_after es (n - 1)"
| "counter_after (e # es) n = counter_after es n"

text \<open>
  Lock discipline of one thread, \<open>held\<close> saying whether it holds the lock: the lock is
  acquired only when not held and released only when held, the counter is touched only
  while it is held, and at the end it is released.
\<close>

fun guarded :: "bool \<Rightarrow> effect list \<Rightarrow> bool" where
  "guarded held [] = (\<not> held)"
| "guarded held (Acquire # es) = (\<not> held \<and> guarded True es)"
| "guarded held (Release # es) = (held \<and> guarded False es)"
| "guarded held (Incr # es) = (held \<and> guarded held es)"
| "guarded held (Decr # es) = (held \<and> guarded held es)"
| "guarded held (ReadCount # es) = (held \<and> guarded held es)"
| "guarded held (e # es) = guarded held es"

text \<open>The responses a session wrote, in order.\<close>

fun sent :: "effect list \<Rightarrow> json list" where
  "sent [] = []"
| "sent (Sent r # es) = r # sent es"
| "sent (e # es) = sent es"

text \<open>A field of a field: \<^verbatim>\<open>r[a][b]\<close>, \<open>None\<close> where either is missing.\<close>

definition field2 :: "json \<Rightarrow> str \<Rightarrow> str \<Rightarrow> json option" where
  "field2 r a b = (case field r a of None \<Rightarrow> None | Some v \<Rightarrow> field v b)"

text \<open>
  The shape of a response: \<open>status\<close>, \<open>data\<close> and \<open>error\<close> are present, \<open>data\<close> is
  an object, and either the status is OK, the data is not empty and the error is null, or
  the status is ERROR, the data is empty and the error is an object of exactly a string
  \<open>code\<close> and a string \<open>message\<close>.
\<close>

definition is_error_obj :: "json \<Rightarrow> bool" where
  "is_error_obj e =
     (case e of
        JObj kvs \<Rightarrow>
          (case (map_of kvs (lit ''code''), map_of kvs (lit ''message'')) of
             (Some (JStr c), Some (JStr m)) \<Rightarrow> length kvs = 2
           | _ \<Rightarrow> False)
      | _ \<Rightarrow> False)"

definition well_shaped :: "json \<Rightarrow> bool" where
  "well_shaped r =
     (case (field r (lit ''status''), field r (lit ''data''), field r (lit ''error'')) of
        (Some (JStr s), Some (JObj d), Some e) \<Rightarrow>
          (s = lit ''OK'' \<and> d \<noteq> [] \<and> e = JNull) \<or>
          (s = lit ''ERROR'' \<and> d = [] \<and> is_error_obj e)
      | _ \<Rightarrow> False)"

text \<open>
  Effects that leave the counter alone and the lock as they found it: responses sent, the
  socket closed, and the counter read between an acquire and a release.
\<close>

fun neutral :: "effect list \<Rightarrow> bool" where
  "neutral [] = True"
| "neutral (Sent r # es) = neutral es"
| "neutral (Closed # es) = neutral es"
| "neutral (Acquire # ReadCount # Release # es) = neutral es"
| "neutral _ = False"

section \<open>Sample inputs\<close>

text \<open>
  A concrete runtime for the examples: \<open>ascii_toupper\<close> is \<^verbatim>\<open>str.upper\<close> on ASCII, and
  \<open>sample_loads\<close> is \<^verbatim>\<open>json.loads\<close> on the lines listed (the examples use no other
  line that is JSON).
\<close>

definition ascii_toupper :: "nat \<Rightarrow> str" where
  "ascii_toupper c = (if 97 \<le> c \<and> c \<le> 122 then [c - 32] else [c])"

definition request :: "str \<Rightarrow> str \<Rightarrow> (str \<times> json) list \<Rightarrow> json" where
  "request t rid p = JObj [(lit ''type'', JStr t), (lit ''request_id'', JStr rid), (lit ''payload'', JObj p)]"

definition help_req :: json where
  "help_req = JObj [(lit ''type'', JStr (lit '' help '')), (lit ''request_id'', JStr (lit ''r3'')), (lit ''payload'', JObj [])]"

definition echo_req :: json where
  "echo_req = request (lit ''echo'') (lit ''r1'') [(lit ''message'', JStr [32, 104, 233, 8364, 128512, 9])]"

definition echo_bad_req :: json where
  "echo_bad_req = request (lit ''echo'') (lit ''r1'') [(lit ''message'', JInt 7)]"

definition unknown_req :: json where
  "unknown_req = request (lit '' foo '') (lit ''r9'') []"

definition fq_req :: json where
  "fq_req = request (lit ''file_query'') (lit ''r2'') [(lit ''key'', JStr (lit '' alpha ''))]"

definition fq_req_trimmed :: json where
  "fq_req_trimmed = request (lit ''file_query'') (lit ''r2'') [(lit ''key'', JStr (lit ''alpha''))]"

definition fq_req_blank :: json where
  "fq_req_blank = request (lit ''file_query'') (lit ''r2'') [(lit ''key'', JStr (lit ''  ''))]"

definition sample_table :: data_file where
  "sample_table = Holds (JObj [(lit ''alpha'', JInt 1)])"

definition help_line :: str where
  \<open>help_line = lit ''{"type":" help ","request_id":"r3","payload":{}}''\<close>

definition fq_line :: str where
  \<open>fq_line = lit ''{"type":"file_query","request_id":"r2","payload":{"key":"alpha"}}''\<close>

definition sample_loads :: "str \<Rightarrow> exn + json" where
  "sample_loads s =
     (if s = help_line then Inr help_req
      else if s = fq_line then Inr fq_req_trimmed
      else if s = lit ''42'' then Inr (JInt 42)
      else Inl JSONDecodeError)"

definition rt0 :: runtime where
  "rt0 = \<lparr>toupper = ascii_toupper, json_loads = sample_loads,
           now_iso = lit ''2024-01-01T00:00:00+00:00'', platform_platform = lit ''Linux''\<rparr>"

definition session_reads :: "read list" where
  "session_reads =
     [Line (help_line @ [10]), Line [32, 9, 10], Line (lit ''42'' @ [10]),
      Line (lit ''not json'' @ [10])]"

section \<open>Auxiliary facts\<close>

lemmas ev = request_def strip_def isspace_def upper_def rt0_def ascii_toupper_def bad_str_field_def bad_payload_def

lemmas run = client_thread_def process_line_def handle_request_def file_query_def
  make_response_def error_obj_def server_error_def sample_loads_def help_line_def fq_line_def
  help_req_def fq_req_trimmed_def

lemma strip_strip: "strip (strip s) = strip s"
proof -
  define s1 where "s1 = dropWhile isspace s"
  define s2 where "s2 = rev (dropWhile isspace (rev s1))"
  have pre: "s1 = s2 @ rev (takeWhile isspace (rev s1))"
    unfolding s2_def by (metis rev_append rev_rev_ident takeWhile_dropWhile_id)
  have a: "dropWhile isspace s2 = s2"
  proof (cases "s2 = []")
    case True then show ?thesis by simp
  next
    case False
    then have "s1 \<noteq> []" using pre by auto
    then have "\<not> isspace (hd s1)" unfolding s1_def by (simp add: hd_dropWhile)
    moreover have "hd s1 = hd s2" using pre False by (metis hd_append2)
    ultimately show ?thesis using False by (simp add: dropWhile_eq_self_iff)
  qed
  have b: "dropWhile isspace (rev s2) = rev s2"
    unfolding s2_def by (simp add: dropWhile_idem)
  show ?thesis
    using a b unfolding strip_def s1_def [symmetric] s2_def [symmetric] by simp
qed

lemma validate_requestD:
  assumes "fst (validate_request req)"
  shows "\<exists>kvs t rid p. req = JObj kvs \<and> map_of kvs (lit ''type'') = Some (JStr t) \<and> strip t \<noteq> []
     \<and> map_of kvs (lit ''request_id'') = Some (JStr rid) \<and> strip rid \<noteq> []
     \<and> map_of kvs (lit ''payload'') = Some (JObj p)"
  using assms
  by (cases req) (auto simp: bad_str_field_def bad_payload_def split: if_splits option.splits json.splits)

lemma handle_request_shape:
  assumes "field req (lit ''type'') = Some (JStr t)"
    and "field req (lit ''request_id'') = Some (JStr rid)"
    and "field req (lit ''payload'') = Some (JObj p)"
  shows "handle_request rt df n req =
     (if upper rt (strip t) = lit ''ECHO'' then
            (case map_of p (lit ''message'') of
               Some (JStr m) \<Rightarrow>
                 ([], Inr (make_response rid (lit ''OK'') (Some [(lit ''echo'', JStr m)]) None))
             | _ \<Rightarrow>
                 ([], Inr (make_response rid (lit ''ERROR'') None
                    (Some (error_obj ''BAD_REQUEST''
                       (lit ''ECHO requires payload.message (string)''))))))
          else if upper rt (strip t) = lit ''SYSTEM_INFO'' then
            ([Acquire, ReadCount, Release],
             Inr (make_response rid (lit ''OK'')
               (Some [(lit ''server_name'', JStr SERVER_NAME),
                      (lit ''server_time'', JStr (now_iso rt)),
                      (lit ''active_clients'', JInt n),
                      (lit ''platform'', JStr (platform_platform rt))]) None))
          else if upper rt (strip t) = lit ''FILE_QUERY'' then
            ([], file_query df rid p)
          else if upper rt (strip t) = lit ''HELP'' then
            ([], Inr (make_response rid (lit ''OK'')
               (Some [(lit ''supported_types'',
                       JArr [JStr (lit ''ECHO''), JStr (lit ''SYSTEM_INFO''),
                             JStr (lit ''FILE_QUERY''), JStr (lit ''HELP'')])]) None))
          else
            ([], Inr (make_response rid (lit ''ERROR'') None
               (Some (error_obj ''UNKNOWN_TYPE'' (lit ''Unknown request type: '' @ upper rt (strip t)))))))"
  unfolding handle_request_def Let_def using assms by simp

lemma file_query_table:
  assumes "load_local_data df = Inr (JObj tbl)"
  shows "file_query df rid p =
     (case map_of p (lit ''key'') of
        Some (JStr k) \<Rightarrow>
          if strip k = [] then
            Inr (make_response rid (lit ''ERROR'') None
              (Some (error_obj ''BAD_REQUEST'' (lit ''FILE_QUERY requires payload.key (string)''))))
          else (case map_of tbl (strip k) of
                  None \<Rightarrow> Inr (make_response rid (lit ''ERROR'') None
                        (Some (error_obj ''NOT_FOUND''
                           (lit ''Key '' @ [39] @ strip k @ [39] @ lit '' not found''))))
                | Some v \<Rightarrow> Inr (make_response rid (lit ''OK'')
                             (Some [(lit ''key'', JStr (strip k)), (lit ''value'', v)]) None))
      | _ \<Rightarrow>
          Inr (make_response rid (lit ''ERROR'') None
            (Some (error_obj ''BAD_REQUEST'' (lit ''FILE_QUERY requires payload.key (string)'')))))"
  unfolding file_query_def Let_def using assms
  by (auto split: option.splits json.splits)

lemma file_query_strip:
  assumes "map_of p (lit ''key'') = Some (JStr k)" and "map_of p' (lit ''key'') = Some (JStr k')"
    and "strip k = strip k'"
  shows "file_query df rid p = file_query df rid p'"
proof -
  define F where "F = (\<lambda>s. file_query df rid [(lit ''key'', JStr s)])"
  have e: "file_query df rid q = F (strip kk)"
    if "map_of q (lit ''key'') = Some (JStr kk)" for q kk
    unfolding F_def file_query_def Let_def using that
    by (simp add: strip_strip cong: sum.case_cong bool.case_cong)
  show ?thesis
    using e [OF assms(1)] e [OF assms(2)] assms(3) by simp
qed

lemma well_shaped_ok:
  "st = lit ''OK'' \<Longrightarrow> well_shaped (make_response rid st (Some d) None) = (d \<noteq> [])"
  by (simp add: well_shaped_def make_response_def)

lemma well_shaped_error:
  "st = lit ''ERROR'' \<Longrightarrow> well_shaped (make_response rid st None (Some (error_obj c m)))"
  by (simp add: well_shaped_def make_response_def error_obj_def is_error_obj_def)

lemma file_query_well_shaped: "file_query df rid p = Inr r \<Longrightarrow> well_shaped r"
  unfolding file_query_def Let_def
  by (auto simp: well_shaped_ok well_shaped_error split: option.splits json.splits if_splits sum.splits bool.splits)

lemma handle_request_well_shaped: "handle_request rt df n req = (effs, Inr r) \<Longrightarrow> well_shaped r"
  unfolding handle_request_def Let_def
  by (auto simp: well_shaped_ok well_shaped_error file_query_well_shaped
      split: option.splits json.splits if_splits)

lemma handle_request_effects:
  "handle_request rt df n req = (effs, x) \<Longrightarrow> effs = [] \<or> effs = [Acquire, ReadCount, Release]"
  unfolding handle_request_def Let_def
  by (auto split: option.splits json.splits if_splits)

lemma process_line_well_shaped: "process_line rt df n l = (effs, Respond r) \<Longrightarrow> well_shaped r"
  unfolding process_line_def Let_def
  by (auto simp: well_shaped_error handle_request_well_shaped
      split: if_splits sum.splits exn.splits prod.splits bool.splits)

lemma process_line_effects:
  "process_line rt df n l = (effs, x) \<Longrightarrow> effs = [] \<or> effs = [Acquire, ReadCount, Release]"
  unfolding process_line_def Let_def
  by (auto dest: handle_request_effects
      split: if_splits sum.splits exn.splits prod.splits bool.splits)

lemma sendall_cases:
  "sendall r fs = (se, x, fs') \<Longrightarrow> (se = [] \<and> x \<noteq> None) \<or> (se = [Sent r] \<and> x = None)"
  by (cases "(r, fs)" rule: sendall.cases) auto

lemma sent_append: "sent (a @ b) = sent a @ sent b"
  by (induction a rule: sent.induct) auto

lemma neutral_append: "neutral a \<Longrightarrow> neutral b \<Longrightarrow> neutral (a @ b)"
  by (induction a rule: neutral.induct) auto

lemma neutral_guarded: "neutral a \<Longrightarrow> guarded False (a @ es) = guarded False es"
  by (induction a rule: neutral.induct) auto

lemma neutral_counter: "neutral a \<Longrightarrow> counter_after (a @ es) n = counter_after es n"
  by (induction a rule: neutral.induct) auto

lemma neutral_no_change: "neutral a \<Longrightarrow> Incr \<notin> set a \<and> Decr \<notin> set a"
  by (induction a rule: neutral.induct) auto

lemma serve_neutral_shaped:
  "serve rt df c rs fs = (t, x, fs') \<Longrightarrow> neutral t \<and> (\<forall>r\<in>set (sent t). well_shaped r)"
proof (induction rt df c rs fs arbitrary: t x fs' rule: serve.induct)
  case (1 rt df count fs)
  then show ?case by simp
next
  case (2 rt df count e rs fs)
  then show ?case by simp
next
  case (3 rt df count l rs fs)
  show ?case
  proof (cases "l = []")
    case True
    with 3(3) show ?thesis by simp
  next
    case False
    obtain effs st where pl: "process_line rt df count l = (effs, st)" by force
    from process_line_effects [OF pl] have ne: "neutral effs" "sent effs = []" by auto
    show ?thesis
    proof (cases st)
      case Skip
      obtain t1 x1 f1 where s1: "serve rt df count rs fs = (t1, x1, f1)" by (cases "serve rt df count rs fs") auto
      from 3(1) [OF False pl [symmetric] Skip s1] have "neutral t1 \<and> (\<forall>r\<in>set (sent t1). well_shaped r)" .
      moreover from 3(3) False pl Skip s1 have "t = effs @ t1" by simp
      ultimately show ?thesis using ne by (auto simp: neutral_append sent_append)
    next
      case (Raise e)
      with 3(3) False pl have "t = effs" by simp
      with ne show ?thesis by simp
    next
      case (Respond r)
      from process_line_well_shaped pl Respond have wr: "well_shaped r" by simp
      obtain se sx sf where sa: "sendall r fs = (se, sx, sf)" by (cases "sendall r fs") auto
      from sendall_cases [OF sa] have sen: "neutral se" "\<forall>q\<in>set (sent se). well_shaped q"
        using wr by auto
      show ?thesis
      proof (cases sx)
        case None
        obtain t1 x1 f1 where s1: "serve rt df count rs sf = (t1, x1, f1)" by (cases "serve rt df count rs sf") auto
        from 3(2) [OF False pl [symmetric] Respond sa [symmetric] _ None s1]
        have "neutral t1 \<and> (\<forall>r\<in>set (sent t1). well_shaped r)" by simp
        moreover from 3(3) False pl Respond sa None s1 have "t = effs @ se @ t1" by simp
        ultimately show ?thesis using ne sen by (auto simp: neutral_append sent_append)
      next
        case (Some e)
        with 3(3) False pl Respond sa have "t = effs @ se" by simp
        with ne sen show ?thesis by (auto simp: neutral_append sent_append)
      qed
    qed
  qed
qed

lemma server_error_well_shaped: "well_shaped (server_error ex)"
  by (simp add: server_error_def well_shaped_error)

lemma on_exception_neutral_shaped:
  "neutral (on_exception x fs) \<and> (\<forall>r\<in>set (sent (on_exception x fs)). well_shaped r)"
proof (cases x)
  case (Some ex)
  obtain se sx sf where sa: "sendall (server_error ex) fs = (se, sx, sf)"
    by (cases "sendall (server_error ex) fs") auto
  from sendall_cases [OF sa] Some sa show ?thesis
    by (cases ex) (auto simp: server_error_well_shaped)
qed simp



section \<open>The dispatcher\<close>

text \<open>
  C8. A validated request whose type, trimmed and upper-cased, is HELP gets the response
  with the request's id, status OK, no error, and as data exactly
  \<open>supported_types\<close> = [ECHO, SYSTEM_INFO, FILE_QUERY, HELP] in this order, whatever the
  payload, the data file and the counter are; no effect and no exception.
\<close>

theorem help_supported_types:
  assumes "fst (validate_request req)"
    and "field req (lit ''type'') = Some (JStr t)"
    and "upper rt (strip t) = lit ''HELP''"
    and "field req (lit ''request_id'') = Some (JStr rid)"
  shows "\<exists>resp. handle_request rt df n req = ([], Inr resp)
           \<and> field resp (lit ''request_id'') = Some (JStr rid)
           \<and> field resp (lit ''status'') = Some (JStr (lit ''OK''))
           \<and> field resp (lit ''data'') =
               Some (JObj [(lit ''supported_types'',
                  JArr [JStr (lit ''ECHO''), JStr (lit ''SYSTEM_INFO''),
                        JStr (lit ''FILE_QUERY''), JStr (lit ''HELP'')])])
           \<and> field resp (lit ''error'') = Some JNull"
proof -
  from validate_requestD [OF assms(1)] obtain kvs p where
    req: "req = JObj kvs" and p: "map_of kvs (lit ''payload'') = Some (JObj p)"
    by blast
  from assms(2,4) req have t: "map_of kvs (lit ''type'') = Some (JStr t)"
    and rid: "map_of kvs (lit ''request_id'') = Some (JStr rid)" by simp_all
  have "handle_request rt df n req = ([], Inr (make_response rid (lit ''OK'')
               (Some [(lit ''supported_types'',
                       JArr [JStr (lit ''ECHO''), JStr (lit ''SYSTEM_INFO''),
                             JStr (lit ''FILE_QUERY''), JStr (lit ''HELP'')])]) None))"
    unfolding handle_request_def req using t rid p assms(3) by simp
  then show ?thesis by (simp add: make_response_def)
qed

theorem help_supported_types_witness:
  "fst (validate_request help_req) \<and> upper rt0 (strip (lit '' help '')) = lit ''HELP'' \<and>
   (\<exists>resp. handle_request rt0 Missing 1 help_req = ([], Inr resp)
           \<and> field resp (lit ''request_id'') = Some (JStr (lit ''r3''))
           \<and> field resp (lit ''status'') = Some (JStr (lit ''OK''))
           \<and> field resp (lit ''data'') =
               Some (JObj [(lit ''supported_types'',
                  JArr [JStr (lit ''ECHO''), JStr (lit ''SYSTEM_INFO''),
                        JStr (lit ''FILE_QUERY''), JStr (lit ''HELP'')])])
           \<and> field resp (lit ''error'') = Some JNull)"
proof -
  have v: "fst (validate_request help_req)"
    by (simp add: help_req_def bad_str_field_def bad_payload_def strip_def isspace_def)
  have u: "upper rt0 (strip (lit '' help '')) = lit ''HELP''"
    by (simp add: strip_def isspace_def upper_def rt0_def ascii_toupper_def)
  have t: "field help_req (lit ''type'') = Some (JStr (lit '' help ''))"
    and r: "field help_req (lit ''request_id'') = Some (JStr (lit ''r3''))"
    by (simp_all add: help_req_def)
  from help_supported_types [OF v t u r, of Missing 1] v u show ?thesis by blast
qed

text \<open>
  C5. A validated ECHO request whose \<open>payload.message\<close> is a string \<open>m\<close> (any code
  points, whitespace included) gets status OK and data \<open>{echo: m}\<close>, the string
  unchanged; when \<open>payload.message\<close> is missing or not a string the response is ERROR with
  code BAD_REQUEST.
\<close>

theorem echo_round_trip:
  assumes "fst (validate_request req)"
    and "field req (lit ''type'') = Some (JStr t)"
    and "upper rt (strip t) = lit ''ECHO''"
    and "field req (lit ''request_id'') = Some (JStr rid)"
    and "field req (lit ''payload'') = Some (JObj p)"
  shows "(\<forall>m. map_of p (lit ''message'') = Some (JStr m) \<longrightarrow>
            (\<exists>resp. handle_request rt df n req = ([], Inr resp)
               \<and> field resp (lit ''request_id'') = Some (JStr rid)
               \<and> field resp (lit ''status'') = Some (JStr (lit ''OK''))
               \<and> field resp (lit ''data'') = Some (JObj [(lit ''echo'', JStr m)])
               \<and> field resp (lit ''error'') = Some JNull))
       \<and> ((\<forall>m. map_of p (lit ''message'') \<noteq> Some (JStr m)) \<longrightarrow>
            (\<exists>resp. handle_request rt df n req = ([], Inr resp)
               \<and> field resp (lit ''request_id'') = Some (JStr rid)
               \<and> field resp (lit ''status'') = Some (JStr (lit ''ERROR''))
               \<and> field resp (lit ''data'') = Some (JObj [])
               \<and> field2 resp (lit ''error'') (lit ''code'') = Some (JStr (lit ''BAD_REQUEST''))))"
proof (intro conjI allI impI)
  fix m assume "map_of p (lit ''message'') = Some (JStr m)"
  then have "handle_request rt df n req =
      ([], Inr (make_response rid (lit ''OK'') (Some [(lit ''echo'', JStr m)]) None))"
    by (simp add: handle_request_shape [OF assms(2,4,5)] assms(3))
  then show "\<exists>resp. handle_request rt df n req = ([], Inr resp)
               \<and> field resp (lit ''request_id'') = Some (JStr rid)
               \<and> field resp (lit ''status'') = Some (JStr (lit ''OK''))
               \<and> field resp (lit ''data'') = Some (JObj [(lit ''echo'', JStr m)])
               \<and> field resp (lit ''error'') = Some JNull"
    by (simp add: make_response_def)
next
  assume "\<forall>m. map_of p (lit ''message'') \<noteq> Some (JStr m)"
  then have "handle_request rt df n req =
      ([], Inr (make_response rid (lit ''ERROR'') None
                    (Some (error_obj ''BAD_REQUEST''
                       (lit ''ECHO requires payload.message (string)'')))))"
    by (simp add: handle_request_shape [OF assms(2,4,5)] assms(3) split: option.splits json.splits)
  then show "\<exists>resp. handle_request rt df n req = ([], Inr resp)
               \<and> field resp (lit ''request_id'') = Some (JStr rid)
               \<and> field resp (lit ''status'') = Some (JStr (lit ''ERROR''))
               \<and> field resp (lit ''data'') = Some (JObj [])
               \<and> field2 resp (lit ''error'') (lit ''code'') = Some (JStr (lit ''BAD_REQUEST''))"
    by (simp add: make_response_def error_obj_def field2_def)
qed

theorem echo_round_trip_witness:
  "fst (validate_request echo_req) \<and> upper rt0 (strip (lit ''echo'')) = lit ''ECHO'' \<and>
   (\<exists>resp. handle_request rt0 Missing 1 echo_req = ([], Inr resp)
        \<and> field resp (lit ''status'') = Some (JStr (lit ''OK''))
        \<and> field resp (lit ''data'') = Some (JObj [(lit ''echo'', JStr [32, 104, 233, 8364, 128512, 9])])) \<and>
   fst (validate_request echo_bad_req) \<and>
   (\<exists>resp. handle_request rt0 Missing 1 echo_bad_req = ([], Inr resp)
        \<and> field resp (lit ''status'') = Some (JStr (lit ''ERROR''))
        \<and> field2 resp (lit ''error'') (lit ''code'') = Some (JStr (lit ''BAD_REQUEST'')))"
proof -
  have v: "fst (validate_request echo_req)" and v': "fst (validate_request echo_bad_req)"
    by (simp_all add: echo_req_def echo_bad_req_def ev)
  have u: "upper rt0 (strip (lit ''echo'')) = lit ''ECHO''"
    by (simp add: ev)
  have f: "field echo_req (lit ''type'') = Some (JStr (lit ''echo''))"
      "field echo_req (lit ''request_id'') = Some (JStr (lit ''r1''))"
      "field echo_req (lit ''payload'') = Some (JObj [(lit ''message'', JStr [32, 104, 233, 8364, 128512, 9])])"
    by (simp_all add: echo_req_def request_def)
  have f': "field echo_bad_req (lit ''type'') = Some (JStr (lit ''echo''))"
      "field echo_bad_req (lit ''request_id'') = Some (JStr (lit ''r1''))"
      "field echo_bad_req (lit ''payload'') = Some (JObj [(lit ''message'', JInt 7)])"
    by (simp_all add: echo_bad_req_def request_def)
  have m: "map_of [(lit ''message'', JStr [32, 104, 233, 8364, 128512, 9])] (lit ''message'') = Some (JStr [32, 104, 233, 8364, 128512, 9])"
    by simp
  have m': "\<forall>m. map_of [(lit ''message'', JInt 7)] (lit ''message'') \<noteq> Some (JStr m)"
    by simp
  note A = echo_round_trip [OF v f(1) u f(2) f(3), of Missing 1]
  note B = echo_round_trip [OF v' f'(1) u f'(2) f'(3), of Missing 1]
  from A m have a: "\<exists>resp. handle_request rt0 Missing 1 echo_req = ([], Inr resp)
        \<and> field resp (lit ''status'') = Some (JStr (lit ''OK''))
        \<and> field resp (lit ''data'') = Some (JObj [(lit ''echo'', JStr [32, 104, 233, 8364, 128512, 9])])"
    by blast
  from B m' have b: "\<exists>resp. handle_request rt0 Missing 1 echo_bad_req = ([], Inr resp)
        \<and> field resp (lit ''status'') = Some (JStr (lit ''ERROR''))
        \<and> field2 resp (lit ''error'') (lit ''code'') = Some (JStr (lit ''BAD_REQUEST''))"
    by blast
  from v v' u a b show ?thesis by blast
qed

text \<open>
  C3, as amended. A validated request whose type, trimmed and upper-cased, is none of ECHO,
  SYSTEM_INFO, FILE_QUERY, HELP gets an ERROR response with code UNKNOWN_TYPE whose message
  is \<^verbatim>\<open>Unknown request type: \<close> followed by the trimmed and upper-cased type, the
  form used for matching.
\<close>

theorem unknown_type_normalised:
  assumes "fst (validate_request req)"
    and "field req (lit ''type'') = Some (JStr t)"
    and "upper rt (strip t) \<notin> {lit ''ECHO'', lit ''SYSTEM_INFO'', lit ''FILE_QUERY'', lit ''HELP''}"
    and "field req (lit ''request_id'') = Some (JStr rid)"
  shows "\<exists>resp. handle_request rt df n req = ([], Inr resp)
           \<and> field resp (lit ''request_id'') = Some (JStr rid)
           \<and> field resp (lit ''status'') = Some (JStr (lit ''ERROR''))
           \<and> field resp (lit ''data'') = Some (JObj [])
           \<and> field2 resp (lit ''error'') (lit ''code'') = Some (JStr (lit ''UNKNOWN_TYPE''))
           \<and> field2 resp (lit ''error'') (lit ''message'') =
               Some (JStr (lit ''Unknown request type: '' @ upper rt (strip t)))"
proof -
  from assms(1) obtain kvs p where "req = JObj kvs" "map_of kvs (lit ''payload'') = Some (JObj p)"
    by (cases req) (auto simp: bad_payload_def split: if_splits option.splits json.splits)
  then have p: "field req (lit ''payload'') = Some (JObj p)" by simp
  have "handle_request rt df n req =
      ([], Inr (make_response rid (lit ''ERROR'') None
               (Some (error_obj ''UNKNOWN_TYPE'' (lit ''Unknown request type: '' @ upper rt (strip t))))))"
    using assms(3) by (simp add: handle_request_shape [OF assms(2,4) p])
  then show ?thesis
    by (simp add: make_response_def error_obj_def field2_def)
qed

theorem unknown_type_normalised_witness:
  "fst (validate_request unknown_req) \<and>
   upper rt0 (strip (lit '' foo '')) \<notin> {lit ''ECHO'', lit ''SYSTEM_INFO'', lit ''FILE_QUERY'', lit ''HELP''} \<and>
   (\<exists>resp. handle_request rt0 Missing 1 unknown_req = ([], Inr resp)
           \<and> field resp (lit ''request_id'') = Some (JStr (lit ''r9''))
           \<and> field resp (lit ''status'') = Some (JStr (lit ''ERROR''))
           \<and> field resp (lit ''data'') = Some (JObj [])
           \<and> field2 resp (lit ''error'') (lit ''code'') = Some (JStr (lit ''UNKNOWN_TYPE''))
           \<and> field2 resp (lit ''error'') (lit ''message'') =
               Some (JStr (lit ''Unknown request type: '' @ upper rt0 (strip (lit '' foo '')))))"
proof -
  have v: "fst (validate_request unknown_req)"
    by (simp add: unknown_req_def ev)
  have u: "upper rt0 (strip (lit '' foo '')) \<notin> {lit ''ECHO'', lit ''SYSTEM_INFO'', lit ''FILE_QUERY'', lit ''HELP''}"
    by (simp add: ev)
  have f: "field unknown_req (lit ''type'') = Some (JStr (lit '' foo ''))"
      "field unknown_req (lit ''request_id'') = Some (JStr (lit ''r9''))"
    by (simp_all add: unknown_req_def request_def)
  from unknown_type_normalised [OF v f(1) u f(2), of Missing 1] v u show ?thesis by blast
qed

text \<open>
  C3, as stated, fails: the type \<^verbatim>\<open>" foo "\<close> is answered with the message
  \<^verbatim>\<open>Unknown request type: FOO\<close>, which contains neither the string the client sent
  nor its trimmed form.
\<close>

theorem unknown_type_echo_counterexample:
  "fst (validate_request unknown_req) \<and>
   field unknown_req (lit ''type'') = Some (JStr (lit '' foo '')) \<and>
   upper rt0 (strip (lit '' foo '')) \<notin> {lit ''ECHO'', lit ''SYSTEM_INFO'', lit ''FILE_QUERY'', lit ''HELP''} \<and>
   handle_request rt0 Missing 1 unknown_req =
     ([], Inr (make_response (lit ''r9'') (lit ''ERROR'') None
        (Some (error_obj ''UNKNOWN_TYPE'' (lit ''Unknown request type: FOO''))))) \<and>
   \<not> sublist (lit ''foo'') (lit ''Unknown request type: FOO'') \<and>
   \<not> sublist (lit '' foo '') (lit ''Unknown request type: FOO'')"
  by (simp add: unknown_req_def ev handle_request_def make_response_def error_obj_def
      sublist_code prefix_code)

text \<open>
  FILE_QUERY when \<^verbatim>\<open>load_local_data\<close> returns a dict \<open>tbl\<close> (the file is missing,
  unreadable, not JSON, or holds a JSON object): a \<open>payload.key\<close> that is missing, not a
  string or blank after trimming gives ERROR with code BAD_REQUEST; a key whose trimmed form
  is not in the table gives ERROR with code NOT_FOUND; otherwise the response is OK with
  data exactly \<open>{key, value}\<close>, the value being the table's entry.
\<close>

lemma file_query_on_table:
  assumes "fst (validate_request req)"
    and "field req (lit ''type'') = Some (JStr t)"
    and "upper rt (strip t) = lit ''FILE_QUERY''"
    and "field req (lit ''request_id'') = Some (JStr rid)"
    and "field req (lit ''payload'') = Some (JObj p)"
    and "load_local_data df = Inr (JObj tbl)"
  shows "((\<forall>k. map_of p (lit ''key'') = Some (JStr k) \<longrightarrow> strip k = []) \<longrightarrow>
            (\<exists>resp. handle_request rt df n req = ([], Inr resp)
               \<and> field resp (lit ''request_id'') = Some (JStr rid)
               \<and> field resp (lit ''status'') = Some (JStr (lit ''ERROR''))
               \<and> field resp (lit ''data'') = Some (JObj [])
               \<and> field2 resp (lit ''error'') (lit ''code'') = Some (JStr (lit ''BAD_REQUEST''))))
       \<and> (\<forall>k. map_of p (lit ''key'') = Some (JStr k) \<and> strip k \<noteq> [] \<and> map_of tbl (strip k) = None \<longrightarrow>
            (\<exists>resp. handle_request rt df n req = ([], Inr resp)
               \<and> field resp (lit ''request_id'') = Some (JStr rid)
               \<and> field resp (lit ''status'') = Some (JStr (lit ''ERROR''))
               \<and> field resp (lit ''data'') = Some (JObj [])
               \<and> field2 resp (lit ''error'') (lit ''code'') = Some (JStr (lit ''NOT_FOUND''))))
       \<and> (\<forall>k v. map_of p (lit ''key'') = Some (JStr k) \<and> strip k \<noteq> [] \<and> map_of tbl (strip k) = Some v \<longrightarrow>
            (\<exists>resp. handle_request rt df n req = ([], Inr resp)
               \<and> field resp (lit ''request_id'') = Some (JStr rid)
               \<and> field resp (lit ''status'') = Some (JStr (lit ''OK''))
               \<and> field resp (lit ''data'') = Some (JObj [(lit ''key'', JStr (strip k)), (lit ''value'', v)])
               \<and> field resp (lit ''error'') = Some JNull))"
proof -
  have h: "handle_request rt df n req = ([], file_query df rid p)"
    by (simp add: handle_request_shape [OF assms(2,4,5)] assms(3))
  note q = file_query_table [OF assms(6), of rid p]
  show ?thesis
  proof (intro conjI allI impI)
    assume "\<forall>k. map_of p (lit ''key'') = Some (JStr k) \<longrightarrow> strip k = []"
    then have "file_query df rid p = Inr (make_response rid (lit ''ERROR'') None
              (Some (error_obj ''BAD_REQUEST'' (lit ''FILE_QUERY requires payload.key (string)''))))"
      unfolding q by (auto split: option.splits json.splits)
    with h show "\<exists>resp. handle_request rt df n req = ([], Inr resp)
               \<and> field resp (lit ''request_id'') = Some (JStr rid)
               \<and> field resp (lit ''status'') = Some (JStr (lit ''ERROR''))
               \<and> field resp (lit ''data'') = Some (JObj [])
               \<and> field2 resp (lit ''error'') (lit ''code'') = Some (JStr (lit ''BAD_REQUEST''))"
      by (simp add: make_response_def error_obj_def field2_def)
  next
    fix k assume "map_of p (lit ''key'') = Some (JStr k) \<and> strip k \<noteq> [] \<and> map_of tbl (strip k) = None"
    then have "file_query df rid p = Inr (make_response rid (lit ''ERROR'') None
                        (Some (error_obj ''NOT_FOUND''
                           (lit ''Key '' @ [39] @ strip k @ [39] @ lit '' not found''))))"
      unfolding q by simp
    with h show "\<exists>resp. handle_request rt df n req = ([], Inr resp)
               \<and> field resp (lit ''request_id'') = Some (JStr rid)
               \<and> field resp (lit ''status'') = Some (JStr (lit ''ERROR''))
               \<and> field resp (lit ''data'') = Some (JObj [])
               \<and> field2 resp (lit ''error'') (lit ''code'') = Some (JStr (lit ''NOT_FOUND''))"
      by (simp add: make_response_def error_obj_def field2_def)
  next
    fix k v assume "map_of p (lit ''key'') = Some (JStr k) \<and> strip k \<noteq> [] \<and> map_of tbl (strip k) = Some v"
    then have "file_query df rid p = Inr (make_response rid (lit ''OK'')
                             (Some [(lit ''key'', JStr (strip k)), (lit ''value'', v)]) None)"
      unfolding q by simp
    with h show "\<exists>resp. handle_request rt df n req = ([], Inr resp)
               \<and> field resp (lit ''request_id'') = Some (JStr rid)
               \<and> field resp (lit ''status'') = Some (JStr (lit ''OK''))
               \<and> field resp (lit ''data'') = Some (JObj [(lit ''key'', JStr (strip k)), (lit ''value'', v)])
               \<and> field resp (lit ''error'') = Some JNull"
      by (simp add: make_response_def)
  qed
qed

lemma file_query_on_table_example:
  "fst (validate_request fq_req) \<and> upper rt0 (strip (lit ''file_query'')) = lit ''FILE_QUERY'' \<and>
   load_local_data sample_table = Inr (JObj [(lit ''alpha'', JInt 1)]) \<and>
   strip (lit '' alpha '') \<noteq> [] \<and>
   (\<exists>resp. handle_request rt0 sample_table 1 fq_req = ([], Inr resp)
        \<and> field resp (lit ''status'') = Some (JStr (lit ''OK''))
        \<and> field resp (lit ''data'') =
              Some (JObj [(lit ''key'', JStr (strip (lit '' alpha ''))), (lit ''value'', JInt 1)])) \<and>
   load_local_data Missing = Inr (JObj []) \<and>
   (\<exists>resp. handle_request rt0 Missing 1 fq_req = ([], Inr resp)
        \<and> field2 resp (lit ''error'') (lit ''code'') = Some (JStr (lit ''NOT_FOUND''))) \<and>
   fst (validate_request fq_req_blank) \<and>
   (\<exists>resp. handle_request rt0 sample_table 1 fq_req_blank = ([], Inr resp)
        \<and> field2 resp (lit ''error'') (lit ''code'') = Some (JStr (lit ''BAD_REQUEST'')))"
proof -
  have v: "fst (validate_request fq_req)" and v': "fst (validate_request fq_req_blank)"
    by (simp_all add: fq_req_def fq_req_blank_def ev)
  have u: "upper rt0 (strip (lit ''file_query'')) = lit ''FILE_QUERY''"
    by (simp add: ev)
  have f: "field fq_req (lit ''type'') = Some (JStr (lit ''file_query''))"
      "field fq_req (lit ''request_id'') = Some (JStr (lit ''r2''))"
      "field fq_req (lit ''payload'') = Some (JObj [(lit ''key'', JStr (lit '' alpha ''))])"
    by (simp_all add: fq_req_def request_def)
  have f': "field fq_req_blank (lit ''type'') = Some (JStr (lit ''file_query''))"
      "field fq_req_blank (lit ''request_id'') = Some (JStr (lit ''r2''))"
      "field fq_req_blank (lit ''payload'') = Some (JObj [(lit ''key'', JStr (lit ''  ''))])"
    by (simp_all add: fq_req_blank_def request_def)
  have l: "load_local_data sample_table = Inr (JObj [(lit ''alpha'', JInt 1)])"
    and l': "load_local_data Missing = Inr (JObj [])"
    by (simp_all add: sample_table_def)
  have k: "map_of [(lit ''key'', JStr (lit '' alpha ''))] (lit ''key'') = Some (JStr (lit '' alpha ''))"
    and ne: "strip (lit '' alpha '') \<noteq> []"
    and hit: "map_of [(lit ''alpha'', JInt 1)] (strip (lit '' alpha '')) = Some (JInt 1)"
    and miss: "map_of ([] :: (str \<times> json) list) (strip (lit '' alpha '')) = None"
    and blank: "\<forall>k. map_of [(lit ''key'', JStr (lit ''  ''))] (lit ''key'') = Some (JStr k)
                  \<longrightarrow> strip k = []"
    by (simp_all add: strip_def isspace_def)
  note A = file_query_on_table [OF v f(1) u f(2) f(3) l, of 1]
  note B = file_query_on_table [OF v f(1) u f(2) f(3) l', of 1]
  note C = file_query_on_table [OF v' f'(1) u f'(2) f'(3) l, of 1]
  from A k ne hit have a: "\<exists>resp. handle_request rt0 sample_table 1 fq_req = ([], Inr resp)
        \<and> field resp (lit ''status'') = Some (JStr (lit ''OK''))
        \<and> field resp (lit ''data'') =
              Some (JObj [(lit ''key'', JStr (strip (lit '' alpha ''))), (lit ''value'', JInt 1)])"
    by blast
  from B k ne miss have b: "\<exists>resp. handle_request rt0 Missing 1 fq_req = ([], Inr resp)
        \<and> field2 resp (lit ''error'') (lit ''code'') = Some (JStr (lit ''NOT_FOUND''))"
    by blast
  from C blank have c: "\<exists>resp. handle_request rt0 sample_table 1 fq_req_blank = ([], Inr resp)
        \<and> field2 resp (lit ''error'') (lit ''code'') = Some (JStr (lit ''BAD_REQUEST''))"
    by blast
  from v v' u l l' ne a b c show ?thesis by blast
qed

text \<open>
  C4 at a data file that holds valid JSON which is not an object. \<^verbatim>\<open>load_local_data\<close>
  returns the value as it is, against its own docstring and return type (a dict, empty when
  the file is invalid), and the validated FILE_QUERY request gets none of the three
  responses of the claim: \<^verbatim>\<open>key not in data\<close> raises TypeError on a number, and
  \<^verbatim>\<open>data[key]\<close> raises it on a list that has the key as an element. The session
  answers with SERVER_ERROR and ends, leaving the next line unanswered.
\<close>

theorem file_query_non_dict_data:
  "fst (validate_request fq_req_trimmed)
   \<and> load_local_data (Holds (JInt 5)) = Inr (JInt 5)
   \<and> handle_request rt0 (Holds (JInt 5)) 1 fq_req_trimmed = ([], Inl (OtherError (lit ''TypeError'')))
   \<and> handle_request rt0 (Holds (JArr [JStr (lit ''alpha'')])) 1 fq_req_trimmed =
       ([], Inl (OtherError (lit ''TypeError'')))
   \<and> sent (client_thread rt0 (Holds (JInt 5)) 0 [Line (fq_line @ [10]), Line (help_line @ [10])] []) =
       [server_error (OtherError (lit ''TypeError''))]"
  by (simp add: run ev)

text \<open>
  C10. In a validated FILE_QUERY request the key is trimmed before the lookup: a request
  with key \<open>k\<close> and the same request with key \<open>strip k\<close> get the same result, whatever
  the data file holds; and for a key that is not blank, the table is searched for
  \<open>strip k\<close>, and a successful response carries \<open>strip k\<close> as \<open>data.key\<close>.
\<close>

theorem file_query_trims_key:
  assumes "fst (validate_request req)" and "fst (validate_request req')"
    and "field req (lit ''type'') = Some (JStr t)"
    and "field req' (lit ''type'') = Some (JStr t)"
    and "upper rt (strip t) = lit ''FILE_QUERY''"
    and "field req (lit ''request_id'') = Some (JStr rid)"
    and "field req' (lit ''request_id'') = Some (JStr rid)"
    and "field req (lit ''payload'') = Some (JObj p)"
    and "field req' (lit ''payload'') = Some (JObj p')"
    and "map_of p (lit ''key'') = Some (JStr k)"
    and "map_of p' (lit ''key'') = Some (JStr (strip k))"
  shows "handle_request rt df n req = handle_request rt df n req'
       \<and> (\<forall>tbl v. strip k \<noteq> [] \<and> load_local_data df = Inr (JObj tbl) \<and> map_of tbl (strip k) = Some v \<longrightarrow>
            (\<exists>resp. handle_request rt df n req = ([], Inr resp)
               \<and> field resp (lit ''status'') = Some (JStr (lit ''OK''))
               \<and> field resp (lit ''data'') = Some (JObj [(lit ''key'', JStr (strip k)), (lit ''value'', v)])))
       \<and> (\<forall>tbl. strip k \<noteq> [] \<and> load_local_data df = Inr (JObj tbl) \<and> map_of tbl (strip k) = None \<longrightarrow>
            (\<exists>resp. handle_request rt df n req = ([], Inr resp)
               \<and> field2 resp (lit ''error'') (lit ''code'') = Some (JStr (lit ''NOT_FOUND''))))"
proof -
  have h: "handle_request rt df n req = ([], file_query df rid p)"
    by (simp add: handle_request_shape [OF assms(3,6,8)] assms(5))
  have h': "handle_request rt df n req' = ([], file_query df rid p')"
    by (simp add: handle_request_shape [OF assms(4,7,9)] assms(5))
  have same: "file_query df rid p = file_query df rid p'"
    by (rule file_query_strip [OF assms(10,11)]) (simp add: strip_strip)
  show ?thesis
  proof (intro conjI allI impI)
    show "handle_request rt df n req = handle_request rt df n req'"
      by (simp add: h h' same)
  next
    fix tbl v assume a: "strip k \<noteq> [] \<and> load_local_data df = Inr (JObj tbl) \<and> map_of tbl (strip k) = Some v"
    then have "file_query df rid p = Inr (make_response rid (lit ''OK'')
                             (Some [(lit ''key'', JStr (strip k)), (lit ''value'', v)]) None)"
      using assms(10) by (simp add: file_query_table [of df tbl])
    with h show "\<exists>resp. handle_request rt df n req = ([], Inr resp)
               \<and> field resp (lit ''status'') = Some (JStr (lit ''OK''))
               \<and> field resp (lit ''data'') = Some (JObj [(lit ''key'', JStr (strip k)), (lit ''value'', v)])"
      by (simp add: make_response_def)
  next
    fix tbl assume a: "strip k \<noteq> [] \<and> load_local_data df = Inr (JObj tbl) \<and> map_of tbl (strip k) = None"
    then have "file_query df rid p = Inr (make_response rid (lit ''ERROR'') None
                        (Some (error_obj ''NOT_FOUND''
                           (lit ''Key '' @ [39] @ strip k @ [39] @ lit '' not found''))))"
      using assms(10) by (simp add: file_query_table [of df tbl])
    with h show "\<exists>resp. handle_request rt df n req = ([], Inr resp)
               \<and> field2 resp (lit ''error'') (lit ''code'') = Some (JStr (lit ''NOT_FOUND''))"
      by (simp add: make_response_def error_obj_def field2_def)
  qed
qed

theorem file_query_trims_key_witness:
  "fst (validate_request fq_req) \<and> fst (validate_request fq_req_trimmed) \<and>
   upper rt0 (strip (lit ''file_query'')) = lit ''FILE_QUERY'' \<and>
   strip (lit '' alpha '') = lit ''alpha'' \<and>
   handle_request rt0 sample_table 1 fq_req = handle_request rt0 sample_table 1 fq_req_trimmed \<and>
   (\<exists>resp. handle_request rt0 sample_table 1 fq_req = ([], Inr resp)
        \<and> field resp (lit ''status'') = Some (JStr (lit ''OK''))
        \<and> field resp (lit ''data'') =
              Some (JObj [(lit ''key'', JStr (strip (lit '' alpha ''))), (lit ''value'', JInt 1)])) \<and>
   (\<exists>resp. handle_request rt0 Missing 1 fq_req = ([], Inr resp)
        \<and> field2 resp (lit ''error'') (lit ''code'') = Some (JStr (lit ''NOT_FOUND'')))"
proof -
  have v: "fst (validate_request fq_req)" and v': "fst (validate_request fq_req_trimmed)"
    by (simp_all add: fq_req_def fq_req_trimmed_def ev)
  have u: "upper rt0 (strip (lit ''file_query'')) = lit ''FILE_QUERY''"
    by (simp add: ev)
  have s: "strip (lit '' alpha '') = lit ''alpha''"
    by (simp add: strip_def isspace_def)
  have f: "field fq_req (lit ''type'') = Some (JStr (lit ''file_query''))"
      "field fq_req (lit ''request_id'') = Some (JStr (lit ''r2''))"
      "field fq_req (lit ''payload'') = Some (JObj [(lit ''key'', JStr (lit '' alpha ''))])"
    by (simp_all add: fq_req_def request_def)
  have f': "field fq_req_trimmed (lit ''type'') = Some (JStr (lit ''file_query''))"
      "field fq_req_trimmed (lit ''request_id'') = Some (JStr (lit ''r2''))"
      "field fq_req_trimmed (lit ''payload'') = Some (JObj [(lit ''key'', JStr (lit ''alpha''))])"
    by (simp_all add: fq_req_trimmed_def request_def)
  have k: "map_of [(lit ''key'', JStr (lit '' alpha ''))] (lit ''key'') = Some (JStr (lit '' alpha ''))"
    by simp
  have k': "map_of [(lit ''key'', JStr (lit ''alpha''))] (lit ''key'') = Some (JStr (strip (lit '' alpha '')))"
    unfolding s by simp
  have l: "load_local_data sample_table = Inr (JObj [(lit ''alpha'', JInt 1)])"
    by (simp add: sample_table_def)
  have hit: "map_of [(lit ''alpha'', JInt 1)] (strip (lit '' alpha '')) = Some (JInt 1)"
    and ne: "strip (lit '' alpha '') \<noteq> []"
    unfolding s by simp_all
  note A = file_query_trims_key [OF v v' f(1) f'(1) u f(2) f'(2) f(3) f'(3) k k', of sample_table 1]
  from A l hit ne have a: "\<exists>resp. handle_request rt0 sample_table 1 fq_req = ([], Inr resp)
        \<and> field resp (lit ''status'') = Some (JStr (lit ''OK''))
        \<and> field resp (lit ''data'') =
              Some (JObj [(lit ''key'', JStr (strip (lit '' alpha ''))), (lit ''value'', JInt 1)])"
    by blast
  from A have e: "handle_request rt0 sample_table 1 fq_req = handle_request rt0 sample_table 1 fq_req_trimmed"
    by blast
  have l': "load_local_data Missing = Inr (JObj [])"
    and miss: "map_of ([] :: (str \<times> json) list) (strip (lit '' alpha '')) = None"
    by simp_all
  note B = file_query_trims_key [OF v v' f(1) f'(1) u f(2) f'(2) f(3) f'(3) k k', of Missing 1]
  from B l' miss ne have b: "\<exists>resp. handle_request rt0 Missing 1 fq_req = ([], Inr resp)
        \<and> field2 resp (lit ''error'') (lit ''code'') = Some (JStr (lit ''NOT_FOUND''))"
    by blast
  from v v' u s e a b show ?thesis by blast
qed

section \<open>The session\<close>

text \<open>
  C9. A line that is not the end of the stream and is empty after stripping (a bare newline,
  or whitespace only) is skipped: the loop body builds no response and has no effect, and
  the loop, hence the whole session, goes on exactly as if the line had not been there.
\<close>

theorem blank_line_skipped:
  assumes "l \<noteq> []" and "strip l = []"
  shows "process_line rt df n l = ([], Skip)
       \<and> serve rt df n (Line l # rs) fs = serve rt df n rs fs
       \<and> client_thread rt df m (Line l # rs) fs = client_thread rt df m rs fs"
proof -
  have p: "process_line rt df c l = ([], Skip)" for c
    by (simp add: process_line_def assms(2))
  have "serve rt df c (Line l # rs) fs = serve rt df c rs fs" for c
    using assms(1) p [of c] by (cases "serve rt df c rs fs") simp
  then show ?thesis using p by (simp add: client_thread_def)
qed

theorem blank_line_skipped_witness:
  "[32, 9, 10] \<noteq> ([] :: str) \<and> strip [32, 9, 10] = []
   \<and> process_line rt0 Missing 1 [32, 9, 10] = ([], Skip)
   \<and> serve rt0 Missing 1 (Line [32, 9, 10] # [Line (help_line @ [10])]) [] =
       serve rt0 Missing 1 [Line (help_line @ [10])] []"
proof -
  have a: "[32, 9, 10] \<noteq> ([] :: str)" and b: "strip [32, 9, 10] = []"
    by (simp_all add: strip_def isspace_def)
  from blank_line_skipped [OF a b, of rt0 Missing 1 "[Line (help_line @ [10])]" "[]"] a b
  show ?thesis by blast
qed

text \<open>
  C2, as amended. A line that decodes to a JSON value that is not an object is a validation
  failure, not a decode failure: the response has an empty request id, status ERROR, empty
  data, code BAD_REQUEST and the message \<^verbatim>\<open>Request must be a JSON object\<close>; once it
  is written the loop reads the next line, so the connection stays open.
\<close>

theorem non_object_is_bad_request:
  assumes "strip l \<noteq> []" and "json_loads rt (strip l) = Inr v" and "\<forall>kvs. v \<noteq> JObj kvs"
  shows "\<exists>resp. process_line rt df n l = ([], Respond resp)
           \<and> field resp (lit ''request_id'') = Some (JStr [])
           \<and> field resp (lit ''status'') = Some (JStr (lit ''ERROR''))
           \<and> field resp (lit ''data'') = Some (JObj [])
           \<and> field2 resp (lit ''error'') (lit ''code'') = Some (JStr (lit ''BAD_REQUEST''))
           \<and> field2 resp (lit ''error'') (lit ''message'') =
               Some (JStr (lit ''Request must be a JSON object''))
           \<and> serve rt df n (Line l # rs) (None # fs) =
               (case serve rt df n rs fs of (t, x, fs') \<Rightarrow> (Sent resp # t, x, fs'))
           \<and> serve rt df n (Line l # rs) [] =
               (case serve rt df n rs [] of (t, x, fs') \<Rightarrow> (Sent resp # t, x, fs'))"
proof -
  let ?r = "make_response [] (lit ''ERROR'') None
              (Some (error_obj ''BAD_REQUEST'' (lit ''Request must be a JSON object'')))"
  from assms(3) have vr: "validate_request v = (False, lit ''Request must be a JSON object'')"
    by (cases v) simp_all
  from assms(3) have rid: "(case v of JObj kvs \<Rightarrow>
                     (case map_of kvs (lit ''request_id'') of None \<Rightarrow> JStr [] | Some w \<Rightarrow> w)
                   | _ \<Rightarrow> JStr []) = JStr []"
    by (cases v) simp_all
  have p: "process_line rt df n l = ([], Respond ?r)"
    unfolding process_line_def Let_def using assms(1,2) vr rid by simp
  from assms(1) have ne: "l \<noteq> []" by (auto simp: strip_def)
  have s1: "serve rt df n (Line l # rs) (None # fs) =
               (case serve rt df n rs fs of (t, x, fs') \<Rightarrow> (Sent ?r # t, x, fs'))"
    using ne p by (simp split: prod.splits)
  have s2: "serve rt df n (Line l # rs) [] =
               (case serve rt df n rs [] of (t, x, fs') \<Rightarrow> (Sent ?r # t, x, fs'))"
    using ne p by (simp split: prod.splits)
  have f: "field ?r (lit ''request_id'') = Some (JStr [])"
    "field ?r (lit ''status'') = Some (JStr (lit ''ERROR''))"
    "field ?r (lit ''data'') = Some (JObj [])"
    "field2 ?r (lit ''error'') (lit ''code'') = Some (JStr (lit ''BAD_REQUEST''))"
    "field2 ?r (lit ''error'') (lit ''message'') = Some (JStr (lit ''Request must be a JSON object''))"
    by (simp_all add: make_response_def error_obj_def field2_def)
  from p s1 s2 f show ?thesis by blast
qed

theorem non_object_is_bad_request_witness:
  "strip (lit ''42'' @ [10]) \<noteq> [] \<and> json_loads rt0 (strip (lit ''42'' @ [10])) = Inr (JInt 42)
   \<and> (\<forall>kvs. JInt 42 \<noteq> JObj kvs)
   \<and> (\<exists>resp. process_line rt0 Missing 1 (lit ''42'' @ [10]) = ([], Respond resp)
           \<and> field resp (lit ''request_id'') = Some (JStr [])
           \<and> field2 resp (lit ''error'') (lit ''code'') = Some (JStr (lit ''BAD_REQUEST''))
           \<and> serve rt0 Missing 1 (Line (lit ''42'' @ [10]) # [Line (help_line @ [10])]) [] =
               (case serve rt0 Missing 1 [Line (help_line @ [10])] [] of
                  (t, x, fs') \<Rightarrow> (Sent resp # t, x, fs')))"
proof -
  have a: "strip (lit ''42'' @ [10]) \<noteq> []"
    and b: "json_loads rt0 (strip (lit ''42'' @ [10])) = Inr (JInt 42)"
    and c: "\<forall>kvs. JInt 42 \<noteq> JObj kvs"
    by (simp_all add: strip_def isspace_def rt0_def sample_loads_def help_line_def fq_line_def)
  from non_object_is_bad_request [OF a b c, of Missing 1 "[Line (help_line @ [10])]" "[]"] a b c
  show ?thesis by blast
qed

text \<open>
  C2, as stated, fails: the line \<^verbatim>\<open>42\<close> decodes to a number and is answered with code
  BAD_REQUEST, not INVALID_JSON.
\<close>

theorem non_object_invalid_json_counterexample:
  "json_loads rt0 (strip (lit ''42'' @ [10])) = Inr (JInt 42)
   \<and> process_line rt0 Missing 1 (lit ''42'' @ [10]) =
       ([], Respond (make_response [] (lit ''ERROR'') None
              (Some (error_obj ''BAD_REQUEST'' (lit ''Request must be a JSON object'')))))
   \<and> field2 (make_response [] (lit ''ERROR'') None
              (Some (error_obj ''BAD_REQUEST'' (lit ''Request must be a JSON object''))))
        (lit ''error'') (lit ''code'') = Some (JStr (lit ''BAD_REQUEST''))
   \<and> lit ''BAD_REQUEST'' \<noteq> lit ''INVALID_JSON''"
  by (simp add: run ev field2_def)




text \<open>
  C7. Every response the server constructs is well shaped: what \<^verbatim>\<open>handle_request\<close>
  returns, what the loop body builds for a line, the SERVER_ERROR response, and so every
  response a session writes.
\<close>

theorem responses_well_shaped:
  "(\<forall>effs r. handle_request rt df n req = (effs, Inr r) \<longrightarrow> well_shaped r)
   \<and> (\<forall>effs r. process_line rt df n l = (effs, Respond r) \<longrightarrow> well_shaped r)
   \<and> well_shaped (server_error ex)
   \<and> (\<forall>r\<in>set (sent (client_thread rt df n rs fs)). well_shaped r)"
proof -
  obtain t x fs' where s: "serve rt df (n + 1) rs fs = (t, x, fs')"
    by (cases "serve rt df (n + 1) rs fs") auto
  from serve_neutral_shaped [OF s] on_exception_neutral_shaped [of x fs']
  have "\<forall>r\<in>set (sent (client_thread rt df n rs fs)). well_shaped r"
    by (auto simp: client_thread_def s sent_append)
  then show ?thesis
    using handle_request_well_shaped process_line_well_shaped server_error_well_shaped by blast
qed

theorem responses_well_shaped_witness:
  "handle_request rt0 Missing 1 help_req = ([], Inr (make_response (lit ''r3'') (lit ''OK'')
        (Some [(lit ''supported_types'',
                JArr [JStr (lit ''ECHO''), JStr (lit ''SYSTEM_INFO''),
                      JStr (lit ''FILE_QUERY''), JStr (lit ''HELP'')])]) None))
   \<and> process_line rt0 Missing 1 (lit ''not json'' @ [10]) = ([], Respond (make_response [] (lit ''ERROR'') None
        (Some (error_obj ''INVALID_JSON'' (lit ''Could not parse JSON request'')))))
   \<and> sent (client_thread rt0 Missing 0 session_reads []) =
      [(make_response (lit ''r3'') (lit ''OK'')
        (Some [(lit ''supported_types'',
                JArr [JStr (lit ''ECHO''), JStr (lit ''SYSTEM_INFO''),
                      JStr (lit ''FILE_QUERY''), JStr (lit ''HELP'')])]) None),
       (make_response [] (lit ''ERROR'') None
        (Some (error_obj ''BAD_REQUEST'' (lit ''Request must be a JSON object'')))),
       (make_response [] (lit ''ERROR'') None
        (Some (error_obj ''INVALID_JSON'' (lit ''Could not parse JSON request''))))]
   \<and> well_shaped (make_response (lit ''r3'') (lit ''OK'')
        (Some [(lit ''supported_types'',
                JArr [JStr (lit ''ECHO''), JStr (lit ''SYSTEM_INFO''),
                      JStr (lit ''FILE_QUERY''), JStr (lit ''HELP'')])]) None)
   \<and> well_shaped (make_response [] (lit ''ERROR'') None
        (Some (error_obj ''BAD_REQUEST'' (lit ''Request must be a JSON object''))))
   \<and> well_shaped (make_response [] (lit ''ERROR'') None
        (Some (error_obj ''INVALID_JSON'' (lit ''Could not parse JSON request''))))"
proof -
  have h: "handle_request rt0 Missing 1 help_req = ([], Inr (make_response (lit ''r3'') (lit ''OK'')
        (Some [(lit ''supported_types'',
                JArr [JStr (lit ''ECHO''), JStr (lit ''SYSTEM_INFO''),
                      JStr (lit ''FILE_QUERY''), JStr (lit ''HELP'')])]) None))"
    by (simp add: run ev)
  have p: "process_line rt0 Missing 1 (lit ''not json'' @ [10]) = ([], Respond (make_response [] (lit ''ERROR'') None
        (Some (error_obj ''INVALID_JSON'' (lit ''Could not parse JSON request'')))))"
    by (simp add: run ev)
  have n: "sent (client_thread rt0 Missing 0 session_reads []) =
      [(make_response (lit ''r3'') (lit ''OK'')
        (Some [(lit ''supported_types'',
                JArr [JStr (lit ''ECHO''), JStr (lit ''SYSTEM_INFO''),
                      JStr (lit ''FILE_QUERY''), JStr (lit ''HELP'')])]) None),
       (make_response [] (lit ''ERROR'') None
        (Some (error_obj ''BAD_REQUEST'' (lit ''Request must be a JSON object'')))),
       (make_response [] (lit ''ERROR'') None
        (Some (error_obj ''INVALID_JSON'' (lit ''Could not parse JSON request''))))]"
    by (simp add: session_reads_def run ev)
  from responses_well_shaped
         [of rt0 Missing 0 help_req "lit ''not json'' @ [10]" JSONDecodeError session_reads "[]"]
  have "\<forall>r\<in>set (sent (client_thread rt0 Missing 0 session_reads [])). well_shaped r"
    by blast
  then have w: "well_shaped (make_response (lit ''r3'') (lit ''OK'')
        (Some [(lit ''supported_types'',
                JArr [JStr (lit ''ECHO''), JStr (lit ''SYSTEM_INFO''),
                      JStr (lit ''FILE_QUERY''), JStr (lit ''HELP'')])]) None)"
    "well_shaped (make_response [] (lit ''ERROR'') None
        (Some (error_obj ''BAD_REQUEST'' (lit ''Request must be a JSON object''))))"
    "well_shaped (make_response [] (lit ''ERROR'') None
        (Some (error_obj ''INVALID_JSON'' (lit ''Could not parse JSON request''))))"
    unfolding n by simp_all
  from h p n w show ?thesis by blast
qed

text \<open>
  C6. Whatever is read, and whichever reads and writes fail, the effects of a session are
  the increment under the lock, a body that neither increments nor decrements, and the
  decrement under the lock; the counter is touched only while the lock is held, the lock is
  free at the end, and the counter ends at the value it started from.
\<close>

theorem counter_net_zero:
  "(\<exists>body. client_thread rt df n rs fs =
          [Acquire, Incr, Release] @ body @ [Acquire, Decr, Release]
        \<and> Incr \<notin> set body \<and> Decr \<notin> set body)
   \<and> guarded False (client_thread rt df n rs fs)
   \<and> counter_after (client_thread rt df n rs fs) n = n"
proof -
  obtain t x fs' where s: "serve rt df (n + 1) rs fs = (t, x, fs')"
    by (cases "serve rt df (n + 1) rs fs") auto
  define body where "body = t @ on_exception x fs' @ [Closed]"
  from serve_neutral_shaped [OF s] on_exception_neutral_shaped [of x fs']
  have nb: "neutral body" by (simp add: body_def neutral_append)
  have ct: "client_thread rt df n rs fs = [Acquire, Incr, Release] @ body @ [Acquire, Decr, Release]"
    by (simp add: client_thread_def s body_def)
  have g: "guarded False (client_thread rt df n rs fs)"
    unfolding ct using neutral_guarded [OF nb, of "[Acquire, Decr, Release]"] by simp
  have c: "counter_after (client_thread rt df n rs fs) n = n"
    unfolding ct using neutral_counter [OF nb, of "[Acquire, Decr, Release]" "n + 1"] by simp
  from ct neutral_no_change [OF nb] g c show ?thesis by blast
qed

theorem counter_net_zero_witness:
  "guarded False (client_thread rt0 Missing 0 session_reads [])
   \<and> counter_after (client_thread rt0 Missing 0 session_reads []) 0 = 0
   \<and> guarded False
        (client_thread rt0 Missing 7 [ReadRaises (OtherError (lit ''UnicodeDecodeError''))]
           [Some (OtherError (lit ''BrokenPipeError''))])
   \<and> counter_after
        (client_thread rt0 Missing 7 [ReadRaises (OtherError (lit ''UnicodeDecodeError''))]
           [Some (OtherError (lit ''BrokenPipeError''))]) 7 = 7"
  using counter_net_zero [of rt0 Missing 0 session_reads "[]"]
    counter_net_zero [of rt0 Missing 7 "[ReadRaises (OtherError (lit ''UnicodeDecodeError''))]"
      "[Some (OtherError (lit ''BrokenPipeError''))]"]
  by blast

end
